theory Spec2Isabelle
  imports Complex_Main "HOL-Library.AList" "HOL-Library.Sublist"
begin

section \<open>Python values, exceptions and structures\<close>

text \<open>
  The ensemble layer of the repository is orchestration code around four third-party
  calculators and the pymatgen correction scheme. The embedding follows the Python
  sources function by function. Everything owned by a third-party library (the
  calculators, the \<open>Structure\<close> constructor, \<open>process_entry\<close>, the chemical formula of
  an \<open>Atoms\<close> object) is a parameter, so every theorem holds for any behaviour of those
  libraries, including any failure.

  Python floats are modelled as \<open>real\<close>; the one arithmetic operation of the sources on
  model outputs, the addition of single-precision values, is a parameter as well, so no
  statement below depends on how it rounds.
  Text written to standard output (\<open>print\<close>, the progress bar) is not modelled.
\<close>

type_synonym pyfloat = real

text \<open>
  An exception carries its class and its message. \<open>LibraryError\<close> stands for any
  exception raised inside a third-party library. \<open>str_of\<close> is Python's \<open>str(e)\<close>; for a
  \<open>KeyError\<close> it is the \<open>repr\<close> of the missing key.
\<close>

datatype exn =
    ValueError string
  | RuntimeError string
  | KeyError string
  | AttributeError string
  | LibraryError string

fun str_of :: "exn \<Rightarrow> string" where
  "str_of (ValueError m) = m"
| "str_of (RuntimeError m) = m"
| "str_of (KeyError k) = [CHR 0x27] @ k @ [CHR 0x27]"
| "str_of (AttributeError m) = m"
| "str_of (LibraryError m) = m"

text \<open>
  The values that occur in result records (\<open>ensembled_output.py\<close>): plain Python values,
  numpy arrays and numpy scalar wrappers. A dict keeps its insertion order, so it is an
  association list; \<open>d[k] = v\<close> is \<open>AList.update k v d\<close>. A numeric ndarray is a scalar
  (dimension 0) or a sequence of arrays of one dimension less. \<open>PyObject\<close> is any other
  object (a set, an \<open>Atoms\<close> object, a numpy scalar of another width, ...), named by its
  type.
\<close>

datatype ndarray =
    NdFloat pyfloat
  | NdInt int
  | NdDim "ndarray list"

datatype pyval =
    PyNone
  | PyBool bool
  | PyInt int
  | PyFloat pyfloat
  | PyStr string
  | PyList "pyval list"
  | PyDict "(string \<times> pyval) list"
  | NdArray ndarray
  | NpFloat32 pyfloat
  | NpFloat64 pyfloat
  | NpInt32 int
  | NpInt64 int
  | PyObject string

type_synonym pydict = "(string \<times> pyval) list"

text \<open>
  The two structure representations. An \<open>ase.Atoms\<close> object exposes its cell, chemical
  symbols and cartesian positions; a \<open>pymatgen.Structure\<close> its lattice, species and
  cartesian coordinates.
\<close>

record atoms =
  cell :: "pyfloat list list"
  chemical_symbols :: "string list"
  positions :: "pyfloat list list"

record pmg_structure =
  lattice :: "pyfloat list list"
  species :: "string list"
  coords :: "pyfloat list list"

text \<open>
  \<open>ComputedStructureEntry\<close>: the structure, the energy read back by \<open>.energy\<close>, and the two
  parameters \<open>apply_mp2020_correction\<close> sets.
\<close>

record entry =
  entry_structure :: pmg_structure
  energy :: pyfloat
  is_hubbard :: bool
  run_type :: string

text \<open>
  The third-party functions the sources call:
  \<^item> \<open>Structure_new lattice species coords coords_are_cartesian\<close>, the pymatgen
    \<open>Structure\<close> constructor, which may raise;
  \<^item> \<open>process_entry\<close> of \<open>MaterialsProject2020Compatibility(check_potcar=False)\<close>, which
    raises, returns \<open>None\<close> or returns the corrected entry;
  \<^item> \<open>get_chemical_formula\<close> of an \<open>Atoms\<close> object, in mode \<open>'reduce'\<close>;
  \<^item> \<open>float32_add\<close>, the addition of two \<open>numpy.float32\<close> scalars, which rounds to single
    precision.
\<close>

record extern =
  Structure_new :: "pyfloat list list \<Rightarrow> string list \<Rightarrow> pyfloat list list \<Rightarrow> bool \<Rightarrow> exn + pmg_structure"
  process_entry :: "entry \<Rightarrow> exn + entry option"
  get_chemical_formula :: "atoms \<Rightarrow> string"
  float32_add :: "pyfloat \<Rightarrow> pyfloat \<Rightarrow> pyfloat"

section \<open>Energy correction (\<open>utils/energy_correction.py\<close>)\<close>

text \<open>
  \<open>apply_mp2020_correction(energy, structure)\<close>. The entry is built outside the \<open>try\<close>
  block; it is a plain data holder. Inside the \<open>try\<close>, \<open>process_entry\<close> either raises,
  or returns a falsy value (\<open>None\<close>), for which the function raises \<open>ValueError\<close> itself,
  or returns the corrected entry. The \<open>except Exception\<close> clause catches both raises and
  returns the raw energy. \<open>correction_attempt\<close> is the \<open>try\<close> body; the \<open>except\<close> clause is
  the \<open>Inl\<close> branch of \<open>apply_mp2020_correction\<close>.
\<close>

definition correction_attempt :: "extern \<Rightarrow> entry \<Rightarrow> exn + pyfloat" where
  "correction_attempt ext e =
     (case process_entry ext e of
        Inl err \<Rightarrow> Inl err
      | Inr None \<Rightarrow> Inl (ValueError ''Failed to apply energy correction.'')
      | Inr (Some corrected_entry) \<Rightarrow> Inr (energy corrected_entry))"

definition apply_mp2020_correction :: "extern \<Rightarrow> pyfloat \<Rightarrow> pmg_structure \<Rightarrow> pyfloat" where
  "apply_mp2020_correction ext raw s =
     (let e = \<lparr>entry_structure = s, energy = raw, is_hubbard = False, run_type = ''GGA''\<rparr>
      in case correction_attempt ext e of
           Inr corrected \<Rightarrow> corrected
         | Inl err \<Rightarrow> raw)"

section \<open>Model adapters (\<open>model/*_model.py\<close>)\<close>

text \<open>
  The three ASE-based adapters hold an ASE calculator; \<open>structure.calc = self.calc\<close>
  attaches it, so \<open>structure.get_total_energy()\<close> and \<open>structure.get_forces()\<close> are calls
  of the adapter's own calculator on the structure. Either may raise. The forces come
  back as an ndarray.
\<close>

record calculator =
  get_total_energy :: "atoms \<Rightarrow> exn + pyfloat"
  get_forces :: "atoms \<Rightarrow> exn + ndarray"

text \<open>
  \<open>CHGNet.predict_structure(structure, return_site_energies=True,
  return_crystal_feas=True)\<close> raises or returns a prediction, of which the adapter reads
  the keys \<open>"site_energies"\<close> and \<open>"f"\<close>. Both are ndarrays; the site energies are a
  one-dimensional array of \<open>float32\<close> values, kept here as the list of those values.
\<close>

record chgnet_prediction =
  site_energies :: "pyfloat list"
  pred_f :: ndarray

type_synonym chgnet = "pmg_structure \<Rightarrow> exn + chgnet_prediction"

text \<open>\<open>ndarray.tolist()\<close>: nested plain lists of plain numbers.\<close>

fun tolist :: "ndarray \<Rightarrow> pyval" where
  "tolist (NdFloat x) = PyFloat x"
| "tolist (NdInt n) = PyInt n"
| "tolist (NdDim xs) = PyList (map tolist xs)"

text \<open>Python's \<open>sub in s\<close> on strings: \<open>sub\<close> occurs in \<open>s\<close> as a contiguous substring.\<close>

fun str_in :: "string \<Rightarrow> string \<Rightarrow> bool" where
  "str_in sub [] = (sub = [])"
| "str_in sub (c # cs) = (prefix sub (c # cs) \<or> str_in sub cs)"

text \<open>
  The filter \<open>not prediction_type or key in prediction_type\<close>. \<open>None\<close> and the empty
  string are both falsy.
\<close>

definition requested :: "string \<Rightarrow> string option \<Rightarrow> bool" where
  "requested key prediction_type =
     (case prediction_type of
        None \<Rightarrow> True
      | Some t \<Rightarrow> t = [] \<or> str_in key t)"

text \<open>
  The body shared, statement for statement, by \<open>MACEModel.predict\<close> (lines 61-83),
  \<open>MatterSimModel.predict\<close> (lines 57-88) and \<open>EqV2Model.predict\<close> (lines 62-82): the
  energy branch reads the raw energy, builds a pymatgen structure from the cell,
  symbols and positions of the structure being predicted and stores the corrected
  energy; the force branch stores the forces as a list.
\<close>

definition ase_predict_body :: "extern \<Rightarrow> calculator \<Rightarrow> atoms \<Rightarrow> string option \<Rightarrow> exn + pydict" where
  "ase_predict_body ext calc structure prediction_type =
     (case (if requested ''energy'' prediction_type then
              (case get_total_energy calc structure of
                 Inl err \<Rightarrow> Inl err
               | Inr raw_energy \<Rightarrow>
                   (case Structure_new ext (cell structure) (chemical_symbols structure)
                           (positions structure) True of
                      Inl err \<Rightarrow> Inl err
                    | Inr pmg \<Rightarrow>
                        Inr (AList.update ''energy''
                               (PyFloat (apply_mp2020_correction ext raw_energy pmg)) [])))
            else Inr []) of
        Inl err \<Rightarrow> Inl err
      | Inr result \<Rightarrow>
          if requested ''force'' prediction_type then
            (case get_forces calc structure of
               Inl err \<Rightarrow> Inl err
             | Inr forces \<Rightarrow> Inr (AList.update ''forces'' (tolist forces) result))
          else Inr result)"

text \<open>\<open>except Exception as e: raise RuntimeError(f"<name> prediction failed: {e}")\<close>.\<close>

definition prediction_failed :: "string \<Rightarrow> exn + 'a \<Rightarrow> exn + 'a" where
  "prediction_failed name r =
     (case r of
        Inl err \<Rightarrow> Inl (RuntimeError (name @ '' prediction failed: '' @ str_of err))
      | Inr v \<Rightarrow> Inr v)"

definition MACE_predict :: "extern \<Rightarrow> calculator \<Rightarrow> atoms \<Rightarrow> string option \<Rightarrow> exn + pydict" where
  "MACE_predict ext calc structure prediction_type =
     prediction_failed ''MACE'' (ase_predict_body ext calc structure prediction_type)"

definition MatterSim_predict :: "extern \<Rightarrow> calculator \<Rightarrow> atoms \<Rightarrow> string option \<Rightarrow> exn + pydict" where
  "MatterSim_predict ext calc structure prediction_type =
     prediction_failed ''MatterSim'' (ase_predict_body ext calc structure prediction_type)"

text \<open>\<open>EqV2Model.predict\<close> has no \<open>try\<close> block around the same body.\<close>

definition EqV2_predict :: "extern \<Rightarrow> calculator \<Rightarrow> atoms \<Rightarrow> string option \<Rightarrow> exn + pydict" where
  "EqV2_predict ext calc structure prediction_type =
     ase_predict_body ext calc structure prediction_type"

text \<open>
  Python's \<open>sum\<close> over an array of \<open>float32\<close> values starts from the integer 0 and adds
  the elements from left to right. Of an empty array it is that integer. Otherwise
  \<open>0 + x\<close> is \<open>x\<close> as a \<open>numpy.float32\<close>, and every further step is an addition of two
  \<open>numpy.float32\<close> scalars, so the result is a \<open>numpy.float32\<close>.
\<close>

fun py_sum_float32 :: "(pyfloat \<Rightarrow> pyfloat \<Rightarrow> pyfloat) \<Rightarrow> pyfloat list \<Rightarrow> pyval" where
  "py_sum_float32 add [] = PyInt 0"
| "py_sum_float32 add (x # xs) = NpFloat32 (foldl add x xs)"

text \<open>
  \<open>CHGNETModel.predict\<close>: the model is called first, whatever the prediction type; the
  energy is Python's \<open>sum\<close> of the site energies, and no energy correction is involved.
\<close>

definition CHGNET_predict :: "extern \<Rightarrow> chgnet \<Rightarrow> pmg_structure \<Rightarrow> string option \<Rightarrow> exn + pydict" where
  "CHGNET_predict ext predict_structure structure prediction_type =
     prediction_failed ''CHGNET''
       (case predict_structure structure of
          Inl err \<Rightarrow> Inl err
        | Inr prediction \<Rightarrow>
            (let result = [];
                 result = (if requested ''energy'' prediction_type
                           then AList.update ''energy''
                                  (py_sum_float32 (float32_add ext) (site_energies prediction))
                                  result
                           else result);
                 result = (if requested ''force'' prediction_type
                           then AList.update ''forces'' (tolist (pred_f prediction)) result
                           else result)
             in Inr result))"

text \<open>
  The adapters \<open>ModelManager._initialize_models\<close> can build, each with the handle it
  loads; \<open>model_name\<close> and \<open>required_input_format\<close> are the constants the constructors
  pass to \<open>BaseModel.__init__\<close>.
\<close>

datatype model =
    EqV2Model calculator
  | CHGNETModel chgnet
  | MACEModel calculator
  | MatterSimModel calculator

fun model_name :: "model \<Rightarrow> string" where
  "model_name (EqV2Model _) = ''EqV2''"
| "model_name (CHGNETModel _) = ''CHGNET''"
| "model_name (MACEModel _) = ''MACE''"
| "model_name (MatterSimModel _) = ''MatterSim''"

fun required_input_format :: "model \<Rightarrow> string" where
  "required_input_format (EqV2Model _) = ''ase''"
| "required_input_format (CHGNETModel _) = ''pymatgen''"
| "required_input_format (MACEModel _) = ''ase''"
| "required_input_format (MatterSimModel _) = ''ase''"

text \<open>
  The object handed to \<open>model.predict\<close>, and the dynamic dispatch on the adapter's class.
  The last equation (an adapter given the other representation) is never reached from
  \<open>ModelManager\<close>, see \<open>get_structure_for_model_format\<close> below.
\<close>

datatype pyobj = AtomsObj atoms | StructureObj pmg_structure

fun model_predict :: "extern \<Rightarrow> model \<Rightarrow> pyobj \<Rightarrow> string option \<Rightarrow> exn + pydict" where
  "model_predict ext (EqV2Model calc) (AtomsObj a) t = EqV2_predict ext calc a t"
| "model_predict ext (CHGNETModel m) (StructureObj s) t = CHGNET_predict ext m s t"
| "model_predict ext (MACEModel calc) (AtomsObj a) t = MACE_predict ext calc a t"
| "model_predict ext (MatterSimModel calc) (AtomsObj a) t = MatterSim_predict ext calc a t"
| "model_predict ext _ _ t = Inl (AttributeError ''structure is not in the required input format'')"

section \<open>The ensemble manager (\<open>model/ensembled_output.py\<close>)\<close>

text \<open>
  A structure record is a dict with the keys \<open>"ase_atoms"\<close> and \<open>"pymatgen_structure"\<close>;
  each key may be missing, hold \<open>None\<close> or hold the object.
\<close>

datatype 'a field = Missing | IsNone | Present 'a

record structure_data =
  ase_atoms :: "atoms field"
  pymatgen_structure :: "pmg_structure field"

text \<open>
  What the parameter \<open>structure_data\<close> of \<open>_get_structure_for_model\<close> can be bound to: a
  record, or (from \<open>ModelManager.predict\<close>, which assigns the selected object to the
  variable it passes on) an \<open>Atoms\<close> or \<open>Structure\<close> object. On such an object the test
  \<open>"ase_atoms" not in structure_data\<close> is true: membership iterates over the atoms or
  sites, none of which equals a string. So the lookup only succeeds on a record that
  holds the object.
\<close>

datatype structure_arg = Record structure_data | Selected pyobj

fun lookup_ase_atoms :: "structure_arg \<Rightarrow> atoms option" where
  "lookup_ase_atoms (Record d) = (case ase_atoms d of Present a \<Rightarrow> Some a | _ \<Rightarrow> None)"
| "lookup_ase_atoms (Selected _) = None"

fun lookup_pymatgen_structure :: "structure_arg \<Rightarrow> pmg_structure option" where
  "lookup_pymatgen_structure (Record d) =
     (case pymatgen_structure d of Present s \<Rightarrow> Some s | _ \<Rightarrow> None)"
| "lookup_pymatgen_structure (Selected _) = None"

definition get_structure_for_model :: "structure_arg \<Rightarrow> model \<Rightarrow> exn + pyobj" where
  "get_structure_for_model structure_data model =
     (let required_format = required_input_format model in
      if required_format = ''ase'' then
        (case lookup_ase_atoms structure_data of
           None \<Rightarrow> Inl (ValueError (''ASE Atoms not available for model '' @ model_name model @ ''.''))
         | Some a \<Rightarrow> Inr (AtomsObj a))
      else if required_format = ''pymatgen'' then
        (case lookup_pymatgen_structure structure_data of
           None \<Rightarrow> Inl (ValueError (''Pymatgen Structure not available for model '' @ model_name model @ ''.''))
         | Some s \<Rightarrow> Inr (StructureObj s))
      else Inl (ValueError (''Unsupported input format for model '' @ model_name model @ '': '' @ required_format)))"

text \<open>\<open>{"error": str(e)}\<close>.\<close>

definition error_entry :: "exn \<Rightarrow> pyval" where
  "error_entry e = PyDict [(''error'', PyStr (str_of e))]"

text \<open>
  \<open>ModelManager.predict\<close>. The loop state is the pair of the variable \<open>structure\<close> and the
  dict \<open>results\<close>: line 88 assigns the selected object to \<open>structure\<close> itself, so the next
  iteration passes that object, not the record, to \<open>_get_structure_for_model\<close>.
\<close>

definition predict_step :: "extern \<Rightarrow> string option \<Rightarrow> model \<Rightarrow> structure_arg \<times> pydict \<Rightarrow> structure_arg \<times> pydict" where
  "predict_step ext prediction_type model st =
     (case st of (structure, results) \<Rightarrow>
        (case get_structure_for_model structure model of
           Inl e \<Rightarrow> (structure, AList.update (model_name model) (error_entry e) results)
         | Inr obj \<Rightarrow>
             (case model_predict ext model obj prediction_type of
                Inl e \<Rightarrow> (Selected obj, AList.update (model_name model) (error_entry e) results)
              | Inr r \<Rightarrow> (Selected obj, AList.update (model_name model) (PyDict r) results))))"

definition predict :: "extern \<Rightarrow> model list \<Rightarrow> structure_data \<Rightarrow> string option \<Rightarrow> pydict" where
  "predict ext models structure prediction_type =
     snd (fold (predict_step ext prediction_type) models (Record structure, []))"

text \<open>
  \<open>ModelManager.predict_batch\<close>. The inner loop uses a fresh variable \<open>sub_structure\<close>, so
  every model sees the record. The record's first two entries are built before the
  inner loop and outside its \<open>try\<close>: \<open>structure["ase_atoms"]\<close> raises \<open>KeyError\<close> when the
  key is missing, and \<open>None.get_chemical_formula\<close> raises \<open>AttributeError\<close>; either leaves
  \<open>predict_batch\<close>.
\<close>

definition batch_model_step :: "extern \<Rightarrow> string option \<Rightarrow> structure_data \<Rightarrow> model \<Rightarrow> pydict \<Rightarrow> pydict" where
  "batch_model_step ext prediction_type structure model result =
     (case get_structure_for_model (Record structure) model of
        Inl e \<Rightarrow> AList.update (model_name model) (error_entry e) result
      | Inr sub_structure \<Rightarrow>
          (case model_predict ext model sub_structure prediction_type of
             Inl e \<Rightarrow> AList.update (model_name model) (error_entry e) result
           | Inr r \<Rightarrow> AList.update (model_name model) (PyDict r) result))"

definition unified_record :: "extern \<Rightarrow> model list \<Rightarrow> string option \<Rightarrow> nat \<Rightarrow> structure_data \<Rightarrow> exn + pydict" where
  "unified_record ext models prediction_type idx structure =
     (case ase_atoms structure of
        Missing \<Rightarrow> Inl (KeyError ''ase_atoms'')
      | IsNone \<Rightarrow>
          Inl (AttributeError
                 ([CHR 0x27] @ ''NoneType'' @ [CHR 0x27] @ '' object has no attribute ''
                  @ [CHR 0x27] @ ''get_chemical_formula'' @ [CHR 0x27]))
      | Present a \<Rightarrow>
          Inr (fold (batch_model_step ext prediction_type structure) models
                 [(''index'', PyInt (int idx)), (''structure'', PyStr (get_chemical_formula ext a))]))"

fun predict_batch_loop :: "extern \<Rightarrow> model list \<Rightarrow> string option \<Rightarrow> nat \<Rightarrow> structure_data list \<Rightarrow> pydict list \<Rightarrow> exn + pydict list" where
  "predict_batch_loop ext models prediction_type idx [] unified_results = Inr unified_results"
| "predict_batch_loop ext models prediction_type idx (structure # rest) unified_results =
     (case unified_record ext models prediction_type idx structure of
        Inl e \<Rightarrow> Inl e
      | Inr result \<Rightarrow>
          predict_batch_loop ext models prediction_type (Suc idx) rest (unified_results @ [result]))"

definition predict_batch :: "extern \<Rightarrow> model list \<Rightarrow> structure_data list \<Rightarrow> string option \<Rightarrow> exn + pydict list" where
  "predict_batch ext models structures prediction_type =
     predict_batch_loop ext models prediction_type 0 structures []"

section \<open>The result serializer (\<open>ModelManager.serialize_results\<close>)\<close>

text \<open>
  \<open>serialize_value\<close> is the \<open>if\<close>/\<open>elif\<close> chain of the inner loop, \<open>serialize_items\<close> the
  inner loop itself (it assigns into \<open>serialized_result\<close>, which starts empty), and
  \<open>serialize_results\<close> the outer loop. The recursive call
  \<open>ModelManager.serialize_results([value])[0]\<close> on a nested dict is the inner loop on
  that dict, see \<open>serialize_results_singleton\<close>.
\<close>

fun serialize_value :: "pyval \<Rightarrow> pyval"
  and serialize_items :: "(string \<times> pyval) list \<Rightarrow> pydict \<Rightarrow> pydict" where
  "serialize_value (NdArray a) = tolist a"
| "serialize_value (NpFloat32 x) = PyFloat x"
| "serialize_value (NpFloat64 x) = PyFloat x"
| "serialize_value (NpInt32 n) = PyInt n"
| "serialize_value (NpInt64 n) = PyInt n"
| "serialize_value (PyDict d) = PyDict (serialize_items d [])"
| "serialize_value v = v"
| "serialize_items [] serialized_result = serialized_result"
| "serialize_items ((key, val) # rest) serialized_result =
     serialize_items rest (AList.update key (serialize_value val) serialized_result)"

definition serialize_results :: "pydict list \<Rightarrow> pydict list" where
  "serialize_results results = map (\<lambda>result. serialize_items result []) results"

section \<open>Properties stated by the specification\<close>

text \<open>
  The correction scheme fails on a structure when \<open>process_entry\<close>, given the entry that
  \<open>apply_mp2020_correction\<close> builds, raises or returns \<open>None\<close>.
\<close>

definition scheme_fails :: "extern \<Rightarrow> pyfloat \<Rightarrow> pmg_structure \<Rightarrow> bool" where
  "scheme_fails ext raw s =
     (case process_entry ext
             \<lparr>entry_structure = s, energy = raw, is_hubbard = False, run_type = ''GGA''\<rparr> of
        Inl err \<Rightarrow> True
      | Inr None \<Rightarrow> True
      | Inr (Some corrected_entry) \<Rightarrow> False)"

text \<open>
  A Python dict has pairwise distinct keys; \<open>pydict_ok\<close> says so of a dict and of the
  dicts nested in it (the serializer descends through dicts only).
\<close>

fun pydict_ok :: "pyval \<Rightarrow> bool"
  and items_ok :: "(string \<times> pyval) list \<Rightarrow> bool" where
  "pydict_ok (PyDict d) = (distinct (map fst d) \<and> items_ok d)"
| "pydict_ok v = True"
| "items_ok [] = True"
| "items_ok ((key, val) # rest) = (pydict_ok val \<and> items_ok rest)"

text \<open>
  The values any JSON encoder can write: \<open>None\<close>, booleans, plain integers, plain floats,
  strings, and lists and dicts of such values.
\<close>

fun json_plain :: "pyval \<Rightarrow> bool"
  and json_plain_list :: "pyval list \<Rightarrow> bool"
  and json_plain_items :: "(string \<times> pyval) list \<Rightarrow> bool" where
  "json_plain PyNone = True"
| "json_plain (PyBool b) = True"
| "json_plain (PyInt n) = True"
| "json_plain (PyFloat x) = True"
| "json_plain (PyStr s) = True"
| "json_plain (PyList xs) = json_plain_list xs"
| "json_plain (PyDict d) = json_plain_items d"
| "json_plain v = False"
| "json_plain_list [] = True"
| "json_plain_list (x # xs) = (json_plain x \<and> json_plain_list xs)"
| "json_plain_items [] = True"
| "json_plain_items ((key, val) # rest) = (json_plain val \<and> json_plain_items rest)"

text \<open>
  \<open>passes_plain v\<close>: every value inside \<open>v\<close> that the serializer hands on untouched (one
  that is no ndarray, none of the four numpy scalar types and no dict) is JSON-plain.
\<close>

fun passes_plain :: "pyval \<Rightarrow> bool"
  and passes_plain_items :: "(string \<times> pyval) list \<Rightarrow> bool" where
  "passes_plain (NdArray a) = True"
| "passes_plain (NpFloat32 x) = True"
| "passes_plain (NpFloat64 x) = True"
| "passes_plain (NpInt32 n) = True"
| "passes_plain (NpInt64 n) = True"
| "passes_plain (PyDict d) = passes_plain_items d"
| "passes_plain v = json_plain v"
| "passes_plain_items [] = True"
| "passes_plain_items ((key, val) # rest) = (passes_plain val \<and> passes_plain_items rest)"

text \<open>The nesting shape of a record: its keys, in order, and the shape under each key.\<close>

datatype shape = Leaf | Node "(string \<times> shape) list"

fun shape_of :: "pyval \<Rightarrow> shape"
  and shape_of_items :: "(string \<times> pyval) list \<Rightarrow> (string \<times> shape) list" where
  "shape_of (PyDict d) = Node (shape_of_items d)"
| "shape_of v = Leaf"
| "shape_of_items [] = []"
| "shape_of_items ((key, val) # rest) = (key, shape_of val) # shape_of_items rest"

text \<open>
  The two forms of a model's entry in a result record: \<open>{"error": message}\<close>, or a
  prediction result, whose keys are among \<open>"energy"\<close> and \<open>"forces"\<close>.
\<close>

fun is_error_entry :: "pyval \<Rightarrow> bool" where
  "is_error_entry (PyDict [(k, PyStr msg)]) = (k = ''error'')"
| "is_error_entry v = False"

fun is_success_entry :: "pyval \<Rightarrow> bool" where
  "is_success_entry (PyDict d) =
     (distinct (map fst d) \<and> set (map fst d) \<subseteq> {''energy'', ''forces''})"
| "is_success_entry v = False"

definition is_entry :: "pyval \<Rightarrow> bool" where
  "is_entry v = (is_error_entry v \<or> is_success_entry v)"

section \<open>Concrete inputs\<close>

definition unit_cell :: "pyfloat list list" where
  "unit_cell = [[10, 0, 0], [0, 10, 0], [0, 0, 10]]"

definition h2_atoms :: atoms where
  "h2_atoms =
     \<lparr>cell = unit_cell, chemical_symbols = [''H'', ''H''], positions = [[0, 0, 0], [0, 0, 1]]\<rparr>"

definition h2_structure :: pmg_structure where
  "h2_structure =
     \<lparr>lattice = unit_cell, species = [''H'', ''H''], coords = [[0, 0, 0], [0, 0, 1]]\<rparr>"

definition plain_Structure_new :: "pyfloat list list \<Rightarrow> string list \<Rightarrow> pyfloat list list \<Rightarrow> bool \<Rightarrow> exn + pmg_structure" where
  "plain_Structure_new l sp c cartesian = Inr \<lparr>lattice = l, species = sp, coords = c\<rparr>"

text \<open>
  A scheme that lowers every energy by 1 eV, and one that rejects every entry. The
  sums of the examples are small integers, on which single-precision addition is exact.
\<close>

definition shifting_scheme :: extern where
  "shifting_scheme =
     \<lparr>Structure_new = plain_Structure_new,
      process_entry = (\<lambda>e. Inr (Some (e\<lparr>energy := energy e - 1\<rparr>))),
      get_chemical_formula = (\<lambda>a. ''H2''),
      float32_add = (+)\<rparr>"

definition raising_scheme :: extern where
  "raising_scheme =
     \<lparr>Structure_new = plain_Structure_new,
      process_entry = (\<lambda>e. Inl (LibraryError ''unsupported element'')),
      get_chemical_formula = (\<lambda>a. ''H2''),
      float32_add = (+)\<rparr>"

text \<open>Calculators and a CHGNet model that answer every structure, and ones that fail.\<close>

definition zero_forces :: ndarray where
  "zero_forces =
     NdDim [NdDim [NdFloat 0, NdFloat 0, NdFloat 0], NdDim [NdFloat 0, NdFloat 0, NdFloat 0]]"

definition steady_calculator :: calculator where
  "steady_calculator =
     \<lparr>get_total_energy = (\<lambda>a. Inr 5), get_forces = (\<lambda>a. Inr zero_forces)\<rparr>"

definition failing_calculator :: calculator where
  "failing_calculator =
     \<lparr>get_total_energy = (\<lambda>a. Inl (LibraryError ''CUDA out of memory'')),
      get_forces = (\<lambda>a. Inl (LibraryError ''CUDA out of memory''))\<rparr>"

definition steady_chgnet :: chgnet where
  "steady_chgnet = (\<lambda>s. Inr \<lparr>site_energies = [1, 2], pred_f = zero_forces\<rparr>)"

definition failing_chgnet :: chgnet where
  "failing_chgnet = (\<lambda>s. Inl (LibraryError ''CUDA out of memory''))"

text \<open>
  Records with both representations, without the \<open>"ase_atoms"\<close> key, and with \<open>None\<close>
  under it; an ensemble of two adapters with different input formats.
\<close>

definition h2_record :: structure_data where
  "h2_record = \<lparr>ase_atoms = Present h2_atoms, pymatgen_structure = Present h2_structure\<rparr>"

definition lattice_only_record :: structure_data where
  "lattice_only_record = \<lparr>ase_atoms = Missing, pymatgen_structure = Present h2_structure\<rparr>"

definition atoms_none_record :: structure_data where
  "atoms_none_record = \<lparr>ase_atoms = IsNone, pymatgen_structure = Present h2_structure\<rparr>"

definition mace_and_chgnet :: "model list" where
  "mace_and_chgnet = [MACEModel steady_calculator, CHGNETModel steady_chgnet]"

text \<open>
  A record as the adapters can produce it, with numpy values; and one whose forces are a
  plain list of ndarray rows.
\<close>

definition numpy_record :: pydict where
  "numpy_record =
     [(''index'', NpInt64 0),
      (''MACE'', PyDict [(''energy'', NpFloat32 4), (''forces'', NdArray zero_forces)])]"

definition rows_record :: pydict where
  "rows_record =
     [(''index'', PyInt 0),
      (''MACE'', PyDict [(''energy'', NpFloat32 4),
                        (''forces'', PyList [NdArray (NdDim [NdFloat 0, NdFloat 0, NdFloat 0])])])]"

section \<open>Energy correction: the fallback\<close>

lemma correction_succeeds:
  "process_entry ext \<lparr>entry_structure = s, energy = raw, is_hubbard = False, run_type = ''GGA''\<rparr>
     = Inr (Some c)
   \<Longrightarrow> apply_mp2020_correction ext raw s = energy c"
  by (simp add: apply_mp2020_correction_def correction_attempt_def)

text \<open>
  Claim C5. Whenever the correction scheme cannot process the structure (it raises, or
  returns no entry), \<open>apply_mp2020_correction\<close> returns the raw energy unchanged. The
  function has no exceptional outcome at all: both raises of the \<open>try\<close> body end in the
  \<open>except\<close> clause.
\<close>

theorem correction_falls_back_to_raw:
  assumes "scheme_fails ext raw s"
  shows "apply_mp2020_correction ext raw s = raw"
  using assms
  by (simp add: scheme_fails_def apply_mp2020_correction_def correction_attempt_def
      split: sum.splits option.splits)

theorem correction_falls_back_to_raw_witness:
  "scheme_fails raising_scheme 5 h2_structure
   \<and> apply_mp2020_correction raising_scheme 5 h2_structure = 5"
proof -
  have h: "scheme_fails raising_scheme 5 h2_structure"
    by (simp add: scheme_fails_def raising_scheme_def)
  show ?thesis using h correction_falls_back_to_raw [OF h] by simp
qed

section \<open>The serializer\<close>

lemma update_fresh: "k \<notin> fst ` set al \<Longrightarrow> AList.update k v al = al @ [(k, v)]"
  by (induction al) auto

lemma update_values: "snd ` set (AList.update k v al) \<subseteq> insert v (snd ` set al)"
  by (induction al) auto

lemma serialize_items_keys_distinct:
  "distinct (map fst acc) \<Longrightarrow> distinct (map fst (serialize_items d acc))"
  by (induction d arbitrary: acc) (auto simp: distinct_update)

text \<open>On a dict with distinct keys the inner loop is a map over the items, in order.\<close>

lemma serialize_items_as_map:
  "distinct (map fst d) \<Longrightarrow> fst ` set d \<inter> fst ` set acc = {} \<Longrightarrow>
   serialize_items d acc = acc @ map (\<lambda>(k, v). (k, serialize_value v)) d"
proof (induction d arbitrary: acc)
  case Nil
  then show ?case by simp
next
  case (Cons kv d)
  obtain k v where kv: "kv = (k, v)" by (cases kv)
  have fresh: "k \<notin> fst ` set acc" using Cons.prems kv by auto
  have "fst ` set d \<inter> fst ` set (acc @ [(k, serialize_value v)]) = {}"
    using Cons.prems kv by auto
  moreover have "distinct (map fst d)" using Cons.prems by simp
  ultimately show ?case
    using Cons.IH [of "acc @ [(k, serialize_value v)]"] kv fresh
    by (simp add: update_fresh)
qed

lemma tolist_fixed: "serialize_value (tolist a) = tolist a"
  by (cases a) simp_all

lemma map_fixed:
  "(\<forall>v \<in> snd ` set d. serialize_value v = v) \<Longrightarrow> map (\<lambda>(k, v). (k, serialize_value v)) d = d"
  by (induction d) auto

text \<open>
  Every serialized value is a fixed point of \<open>serialize_value\<close>, and the inner loop keeps
  an accumulator of fixed points one.
\<close>

lemma serialize_fixed:
  "serialize_value (serialize_value v) = serialize_value v"
  "(\<forall>w \<in> snd ` set acc. serialize_value w = w) \<Longrightarrow>
     (\<forall>w \<in> snd ` set (serialize_items d acc). serialize_value w = w)"
proof (induction v and d acc rule: serialize_value_serialize_items.induct)
  case (6 d)
  let ?r = "serialize_items d []"
  have fixed: "\<forall>w \<in> snd ` set ?r. serialize_value w = w" using 6 by simp
  have "distinct (map fst ?r)" by (rule serialize_items_keys_distinct) simp
  then have "serialize_items ?r [] = map (\<lambda>(k, v). (k, serialize_value v)) ?r"
    using serialize_items_as_map [of ?r "[]"] by simp
  also have "\<dots> = ?r" using fixed by (rule map_fixed)
  finally show ?case by simp
next
  case (9 key val rest serialized_result)
  have "\<forall>w \<in> snd ` set (AList.update key (serialize_value val) serialized_result).
          serialize_value w = w"
  proof
    fix w
    assume "w \<in> snd ` set (AList.update key (serialize_value val) serialized_result)"
    then have "w = serialize_value val \<or> w \<in> snd ` set serialized_result"
      using update_values [of key "serialize_value val" serialized_result] by blast
    then show "serialize_value w = w"
    proof
      assume "w = serialize_value val"
      then show ?thesis using 9(1) by simp
    next
      assume "w \<in> snd ` set serialized_result"
      then show ?thesis using 9(3) by blast
    qed
  qed
  from 9(2) [OF this] show ?case by simp
qed (simp_all add: tolist_fixed)

lemma serialize_items_idem:
  "serialize_items (serialize_items d []) [] = serialize_items d []"
proof -
  have "serialize_value (serialize_value (PyDict d)) = serialize_value (PyDict d)"
    by (rule serialize_fixed(1))
  then show ?thesis by simp
qed

text \<open>The recursive call of the source on a nested dict.\<close>

lemma serialize_results_singleton: "hd (serialize_results [d]) = serialize_items d []"
  by (simp add: serialize_results_def)

text \<open>
  Claim C7. The serializer is idempotent: serializing its own output returns that
  output, for every sequence of records.
\<close>

theorem serialize_results_idempotent:
  "serialize_results (serialize_results records) = serialize_results records"
  by (simp add: serialize_results_def serialize_items_idem)

section \<open>The adapters\<close>

text \<open>\<open>str_in\<close> is the contiguous-sublist relation of the library.\<close>

lemma str_in_sublist: "str_in sub s = sublist sub s"
  by (induction s) (auto simp: sublist_Cons_right)

lemma requested_energy [simp]: "requested ''energy'' (Some ''energy'')" "\<not> requested ''force'' (Some ''energy'')"
  by (simp_all add: requested_def)

lemma ase_energy_path:
  assumes "get_total_energy calc a = Inr raw"
    and "Structure_new ext (cell a) (chemical_symbols a) (positions a) True = Inr pmg"
  shows "ase_predict_body ext calc a (Some ''energy'')
         = Inr [(''energy'', PyFloat (apply_mp2020_correction ext raw pmg))]"
  using assms by (simp add: ase_predict_body_def)

lemma correction_cases:
  "apply_mp2020_correction ext raw s =
     (case process_entry ext \<lparr>entry_structure = s, energy = raw, is_hubbard = False, run_type = ''GGA''\<rparr> of
        Inr (Some c) \<Rightarrow> energy c
      | _ \<Rightarrow> raw)"
  by (simp add: apply_mp2020_correction_def correction_attempt_def split: sum.splits option.splits)

text \<open>
  The three ASE-based adapters on the prediction type \<open>"energy"\<close>. When the calculator
  returns a raw energy and the pymatgen structure can be built from the cell, symbols
  and positions of the structure being predicted, the result has exactly one entry: the
  output of \<open>apply_mp2020_correction\<close> on that raw energy and that structure. That output
  is the energy of the corrected entry, and the raw energy only when the scheme raises
  or returns \<open>None\<close>.
\<close>

lemma ase_adapters_correct_energy:
  "(get_total_energy calc a = Inr raw \<and>
    Structure_new ext (cell a) (chemical_symbols a) (positions a) True = Inr pmg \<longrightarrow>
      model_predict ext (MACEModel calc) (AtomsObj a) (Some ''energy'')
        = Inr [(''energy'', PyFloat (apply_mp2020_correction ext raw pmg))] \<and>
      model_predict ext (EqV2Model calc) (AtomsObj a) (Some ''energy'')
        = Inr [(''energy'', PyFloat (apply_mp2020_correction ext raw pmg))] \<and>
      model_predict ext (MatterSimModel calc) (AtomsObj a) (Some ''energy'')
        = Inr [(''energy'', PyFloat (apply_mp2020_correction ext raw pmg))]) \<and>
   apply_mp2020_correction ext raw pmg
     = (case process_entry ext
               \<lparr>entry_structure = pmg, energy = raw, is_hubbard = False, run_type = ''GGA''\<rparr> of
          Inr (Some corrected_entry) \<Rightarrow> energy corrected_entry
        | _ \<Rightarrow> raw)"
  by (simp add: MACE_predict_def EqV2_predict_def MatterSim_predict_def
      prediction_failed_def ase_energy_path correction_cases)

text \<open>
  The CHGNET adapter on the same prediction type: whenever its model answers, the
  energy is the sum of the predicted site energies, whatever the correction scheme is.
\<close>

lemma chgnet_energy_is_site_sum:
  "predict_structure s = Inr p \<Longrightarrow>
   model_predict ext (CHGNETModel predict_structure) (StructureObj s) (Some ''energy'')
     = Inr [(''energy'', py_sum_float32 (float32_add ext) (site_energies p))]"
  by (simp add: CHGNET_predict_def prediction_failed_def)

text \<open>
  Claim C1 at the CHGNET adapter. With a scheme that lowers every energy by 1 eV and a
  model that predicts the site energies 1 and 2, the energy placed in the result is
  their uncorrected sum 3, where the energy correction of that raw energy is 2. The
  adapter never calls \<open>apply_mp2020_correction\<close>, which its three siblings do
  (\<open>ase_adapters_correct_energy\<close>).
\<close>

theorem chgnet_energy_not_corrected:
  "model_predict shifting_scheme (CHGNETModel steady_chgnet) (StructureObj h2_structure) (Some ''energy'')
     = Inr [(''energy'', NpFloat32 3)] \<and>
   apply_mp2020_correction shifting_scheme 3 h2_structure = 2"
  by (simp add: CHGNET_predict_def prediction_failed_def steady_chgnet_def
      apply_mp2020_correction_def correction_attempt_def shifting_scheme_def)

lemma prediction_failed_wraps:
  "prediction_failed name r = Inl e \<Longrightarrow>
   \<exists>cause. r = Inl cause \<and> e = RuntimeError (name @ '' prediction failed: '' @ str_of cause)"
  by (auto simp: prediction_failed_def split: sum.splits)

lemma wrapping_adapters:
  "MACE_predict ext calc a t = Inl e \<Longrightarrow>
     \<exists>cause. e = RuntimeError (''MACE prediction failed: '' @ str_of cause)"
  "MatterSim_predict ext calc a t = Inl e \<Longrightarrow>
     \<exists>cause. e = RuntimeError (''MatterSim prediction failed: '' @ str_of cause)"
  "CHGNET_predict ext m s t = Inl e \<Longrightarrow>
     \<exists>cause. e = RuntimeError (''CHGNET prediction failed: '' @ str_of cause)"
  unfolding MACE_predict_def MatterSim_predict_def CHGNET_predict_def
  by (auto dest!: prediction_failed_wraps)

text \<open>
  Claim C9 at a failing calculator. \<open>EqV2Model.predict\<close> lets the calculator's exception
  escape as it is, without the model's name; \<open>MACEModel.predict\<close> on the same calculator
  raises the wrapped \<open>RuntimeError\<close>, as do MatterSim and CHGNET (\<open>wrapping_adapters\<close>).
\<close>

theorem eqv2_failure_not_wrapped:
  "model_predict shifting_scheme (EqV2Model failing_calculator) (AtomsObj h2_atoms) (Some ''energy'')
     = Inl (LibraryError ''CUDA out of memory'') \<and>
   model_predict shifting_scheme (MACEModel failing_calculator) (AtomsObj h2_atoms) (Some ''energy'')
     = Inl (RuntimeError ''MACE prediction failed: CUDA out of memory'')"
  by (simp add: EqV2_predict_def MACE_predict_def prediction_failed_def ase_predict_body_def
      failing_calculator_def)

text \<open>
  The filter in terms of the library's contiguous-sublist relation: a key is requested
  by a prediction type that is the empty string or contains the key as a substring.
\<close>

lemma requested_iff: "requested key (Some t) = (t = [] \<or> sublist key t)"
  by (simp add: requested_def str_in_sublist)

lemma requested_None: "requested key None"
  by (simp add: requested_def)

text \<open>An adapter's answer depends on the prediction type through the two tests only.\<close>

lemma model_predict_filter:
  assumes "requested ''energy'' t = requested ''energy'' u"
    and "requested ''force'' t = requested ''force'' u"
  shows "model_predict ext m obj t = model_predict ext m obj u"
proof -
  have body: "ase_predict_body ext calc a t = ase_predict_body ext calc a u" for calc a
    by (simp only: ase_predict_body_def assms)
  have chg: "CHGNET_predict ext ps s t = CHGNET_predict ext ps s u" for ps s
    by (simp only: CHGNET_predict_def assms)
  show ?thesis
  proof (cases m)
    case (EqV2Model c)
    then show ?thesis by (cases obj) (simp_all add: EqV2_predict_def body)
  next
    case (CHGNETModel c)
    then show ?thesis by (cases obj) (simp_all add: chg)
  next
    case (MACEModel c)
    then show ?thesis by (cases obj) (simp_all add: MACE_predict_def body)
  next
    case (MatterSimModel c)
    then show ?thesis by (cases obj) (simp_all add: MatterSim_predict_def body)
  qed
qed

text \<open>The keys of a successful answer: \<open>"energy"\<close> if requested, then \<open>"forces"\<close> if requested.\<close>

lemma ase_predict_body_result_keys:
  "ase_predict_body ext calc a t = Inr d \<Longrightarrow>
   map fst d = (if requested ''energy'' t then [''energy''] else [])
               @ (if requested ''force'' t then [''forces''] else [])"
  by (auto simp: ase_predict_body_def split: if_splits sum.splits)

lemma prediction_failed_Inr: "prediction_failed n r = Inr d \<Longrightarrow> r = Inr d"
  by (simp add: prediction_failed_def split: sum.splits)

lemma CHGNET_predict_result_keys:
  "CHGNET_predict ext ps s t = Inr d \<Longrightarrow>
   map fst d = (if requested ''energy'' t then [''energy''] else [])
               @ (if requested ''force'' t then [''forces''] else [])"
  by (auto simp: CHGNET_predict_def Let_def dest!: prediction_failed_Inr
      split: if_splits sum.splits)

lemma model_predict_result_keys:
  assumes "model_predict ext m obj t = Inr d"
  shows "map fst d = (if requested ''energy'' t then [''energy''] else [])
                     @ (if requested ''force'' t then [''forces''] else [])"
proof (cases m)
  case (EqV2Model c)
  with assms obtain a where "ase_predict_body ext c a t = Inr d"
    by (cases obj) (simp_all add: EqV2_predict_def)
  then show ?thesis by (rule ase_predict_body_result_keys)
next
  case (CHGNETModel c)
  with assms obtain s where "CHGNET_predict ext c s t = Inr d"
    by (cases obj) simp_all
  then show ?thesis by (rule CHGNET_predict_result_keys)
next
  case (MACEModel c)
  with assms obtain a where "prediction_failed ''MACE'' (ase_predict_body ext c a t) = Inr d"
    by (cases obj) (simp_all add: MACE_predict_def)
  then have "ase_predict_body ext c a t = Inr d" by (rule prediction_failed_Inr)
  then show ?thesis by (rule ase_predict_body_result_keys)
next
  case (MatterSimModel c)
  with assms obtain a where "prediction_failed ''MatterSim'' (ase_predict_body ext c a t) = Inr d"
    by (cases obj) (simp_all add: MatterSim_predict_def)
  then have "ase_predict_body ext c a t = Inr d" by (rule prediction_failed_Inr)
  then show ?thesis by (rule ase_predict_body_result_keys)
qed

lemma unrequested_gives_empty:
  assumes "\<not> requested ''energy'' t" and "\<not> requested ''force'' t"
  shows "MACE_predict ext calc a t = Inr [] \<and>
         EqV2_predict ext calc a t = Inr [] \<and>
         MatterSim_predict ext calc a t = Inr [] \<and>
         CHGNET_predict ext predict_structure s t
           = (case predict_structure s of
                Inl err \<Rightarrow> Inl (RuntimeError (''CHGNET prediction failed: '' @ str_of err))
              | Inr prediction \<Rightarrow> Inr [])"
  using assms
  by (simp add: MACE_predict_def EqV2_predict_def MatterSim_predict_def CHGNET_predict_def
      prediction_failed_def ase_predict_body_def split: sum.splits)

text \<open>
  Claim C10, as the code has it, for every adapter \<open>m\<close> and every object \<open>obj\<close> handed to
  its \<open>predict\<close>. The filter is substring containment, with the empty string counting as
  unset:
  \<^item> the empty string is answered like the unset prediction type;
  \<^item> two prediction types that agree on being empty or containing \<open>"energy"\<close>, and on
    being empty or containing \<open>"force"\<close>, get the same answer;
  \<^item> a successful answer holds the key \<open>"energy"\<close> exactly when the prediction type is
    empty or contains \<open>"energy"\<close>, and then the key \<open>"forces"\<close> exactly when it is empty or
    contains \<open>"force"\<close>; for the unset prediction type it holds both;
  \<^item> for a non-empty prediction type that contains neither word, the MACE, EqV2 and
    MatterSim adapters return the empty result without any call of the calculator, and
    the CHGNET adapter, which calls its model first, returns the empty result when
    that call succeeds and raises the wrapped error when it fails.
\<close>

theorem prediction_type_filter:
  "model_predict ext m obj (Some []) = model_predict ext m obj None \<and>
   ((u = [] \<or> sublist ''energy'' u) = (w = [] \<or> sublist ''energy'' w) \<and>
    (u = [] \<or> sublist ''force'' u) = (w = [] \<or> sublist ''force'' w) \<longrightarrow>
      model_predict ext m obj (Some u) = model_predict ext m obj (Some w)) \<and>
   (model_predict ext m obj (Some v) = Inr d \<longrightarrow>
      map fst d = (if v = [] \<or> sublist ''energy'' v then [''energy''] else [])
                  @ (if v = [] \<or> sublist ''force'' v then [''forces''] else [])) \<and>
   (model_predict ext m obj None = Inr d' \<longrightarrow> map fst d' = [''energy'', ''forces'']) \<and>
   (t \<noteq> [] \<and> \<not> sublist ''energy'' t \<and> \<not> sublist ''force'' t \<longrightarrow>
      MACE_predict ext calc a (Some t) = Inr [] \<and>
      EqV2_predict ext calc a (Some t) = Inr [] \<and>
      MatterSim_predict ext calc a (Some t) = Inr [] \<and>
      CHGNET_predict ext predict_structure s (Some t)
        = (case predict_structure s of
             Inl err \<Rightarrow> Inl (RuntimeError (''CHGNET prediction failed: '' @ str_of err))
           | Inr prediction \<Rightarrow> Inr []))"
proof (intro conjI impI)
  show "model_predict ext m obj (Some []) = model_predict ext m obj None"
    by (rule model_predict_filter) (simp_all add: requested_def)
next
  assume "(u = [] \<or> sublist ''energy'' u) = (w = [] \<or> sublist ''energy'' w) \<and>
          (u = [] \<or> sublist ''force'' u) = (w = [] \<or> sublist ''force'' w)"
  then show "model_predict ext m obj (Some u) = model_predict ext m obj (Some w)"
    by (intro model_predict_filter) (simp_all only: requested_iff)
next
  assume "model_predict ext m obj (Some v) = Inr d"
  from model_predict_result_keys [OF this]
  show "map fst d = (if v = [] \<or> sublist ''energy'' v then [''energy''] else [])
                    @ (if v = [] \<or> sublist ''force'' v then [''forces''] else [])"
    by (simp only: requested_iff)
next
  assume "model_predict ext m obj None = Inr d'"
  from model_predict_result_keys [OF this]
  show "map fst d' = [''energy'', ''forces'']"
    by (simp add: requested_None)
next
  assume h: "t \<noteq> [] \<and> \<not> sublist ''energy'' t \<and> \<not> sublist ''force'' t"
  then have e: "\<not> requested ''energy'' (Some t)" and f: "\<not> requested ''force'' (Some t)"
    by (simp_all add: requested_iff)
  note r = unrequested_gives_empty [OF e f, of ext calc a predict_structure s]
  from r show "MACE_predict ext calc a (Some t) = Inr []" by (elim conjE)
  from r show "EqV2_predict ext calc a (Some t) = Inr []" by (elim conjE)
  from r show "MatterSim_predict ext calc a (Some t) = Inr []" by (elim conjE)
  from r show "CHGNET_predict ext predict_structure s (Some t)
        = (case predict_structure s of
             Inl err \<Rightarrow> Inl (RuntimeError (''CHGNET prediction failed: '' @ str_of err))
           | Inr prediction \<Rightarrow> Inr [])" by (elim conjE)
qed

theorem prediction_type_filter_witness:
  "sublist ''energy'' ''total_energy'' \<and> \<not> sublist ''force'' ''total_energy'' \<and>
   ''stress'' \<noteq> [] \<and> \<not> sublist ''energy'' ''stress'' \<and> \<not> sublist ''force'' ''stress'' \<and>
   model_predict shifting_scheme (MACEModel steady_calculator) (AtomsObj h2_atoms) (Some [])
     = Inr [(''energy'', PyFloat 4), (''forces'', tolist zero_forces)] \<and>
   model_predict shifting_scheme (MACEModel steady_calculator) (AtomsObj h2_atoms) None
     = Inr [(''energy'', PyFloat 4), (''forces'', tolist zero_forces)] \<and>
   model_predict shifting_scheme (MACEModel steady_calculator) (AtomsObj h2_atoms)
       (Some ''total_energy'')
     = Inr [(''energy'', PyFloat 4)] \<and>
   MACE_predict shifting_scheme failing_calculator h2_atoms (Some ''stress'') = Inr [] \<and>
   CHGNET_predict shifting_scheme steady_chgnet h2_structure (Some ''stress'') = Inr []"
proof -
  let ?m = "MACEModel steady_calculator" and ?o = "AtomsObj h2_atoms"
  let ?both = "[(''energy'', PyFloat 4), (''forces'', tolist zero_forces)]"
  have se: "sublist ''energy'' ''total_energy''"
    by (simp add: sublist_def) (rule exI [of _ "''total_''"], simp)
  have nf: "\<not> sublist ''force'' ''total_energy''"
    by (simp add: str_in_sublist [symmetric])
  have ne: "''stress'' \<noteq> []" by simp
  have n1: "\<not> sublist ''energy'' ''stress''" by (simp add: str_in_sublist [symmetric])
  have n2: "\<not> sublist ''force'' ''stress''" by (simp add: str_in_sublist [symmetric])
  have unset: "model_predict shifting_scheme ?m ?o None = Inr ?both"
    by (simp add: MACE_predict_def prediction_failed_def ase_predict_body_def requested_def
        steady_calculator_def shifting_scheme_def plain_Structure_new_def
        apply_mp2020_correction_def correction_attempt_def)
  have en: "model_predict shifting_scheme ?m ?o (Some ''energy'') = Inr [(''energy'', PyFloat 4)]"
    by (simp add: MACE_predict_def prediction_failed_def ase_predict_body_def
        steady_calculator_def shifting_scheme_def plain_Structure_new_def
        apply_mp2020_correction_def correction_attempt_def)
  have same: "(''total_energy'' = [] \<or> sublist ''energy'' ''total_energy'')
                = (''energy'' = [] \<or> sublist ''energy'' ''energy'') \<and>
              (''total_energy'' = [] \<or> sublist ''force'' ''total_energy'')
                = (''energy'' = [] \<or> sublist ''force'' ''energy'')"
    using se nf by (simp add: str_in_sublist [symmetric])
  note th = prediction_type_filter
    [of shifting_scheme ?m ?o "''total_energy''" "''energy''" "''total_energy''"
        "[(''energy'', PyFloat 4)]" ?both "''stress''" failing_calculator h2_atoms
        steady_chgnet h2_structure]
  have empty: "model_predict shifting_scheme ?m ?o (Some []) = Inr ?both"
    using th unset by simp
  have te: "model_predict shifting_scheme ?m ?o (Some ''total_energy'') = Inr [(''energy'', PyFloat 4)]"
    using th same en by simp
  have none: "MACE_predict shifting_scheme failing_calculator h2_atoms (Some ''stress'') = Inr [] \<and>
      CHGNET_predict shifting_scheme steady_chgnet h2_structure (Some ''stress'') = Inr []"
    using th ne n1 n2 by (simp add: steady_chgnet_def)
  show ?thesis using se nf ne n1 n2 empty unset te none by (intro conjI) simp_all
qed

text \<open>
  Claim C10 as stated fails at two inputs. The empty string contains neither word, but
  it is falsy, so both energy and forces are computed. And for \<open>"stress"\<close> the CHGNET
  adapter raises when its model fails.
\<close>

theorem empty_type_and_failing_chgnet:
  "\<not> str_in ''energy'' [] \<and> \<not> str_in ''force'' [] \<and>
   MACE_predict shifting_scheme steady_calculator h2_atoms (Some [])
     = Inr [(''energy'', PyFloat 4), (''forces'', tolist zero_forces)] \<and>
   \<not> str_in ''energy'' ''stress'' \<and> \<not> str_in ''force'' ''stress'' \<and>
   CHGNET_predict shifting_scheme failing_chgnet h2_structure (Some ''stress'')
     = Inl (RuntimeError ''CHGNET prediction failed: CUDA out of memory'')"
  by (simp add: MACE_predict_def CHGNET_predict_def prediction_failed_def ase_predict_body_def
      requested_def steady_calculator_def failing_chgnet_def shifting_scheme_def
      plain_Structure_new_def apply_mp2020_correction_def correction_attempt_def)

section \<open>The ensemble manager\<close>

lemma model_name_not_reserved: "model_name m \<noteq> ''index''" "model_name m \<noteq> ''structure''"
  by (cases m; simp)+

lemma selected_never_available:
  "get_structure_for_model (Selected obj) m =
     Inl (ValueError ((if required_input_format m = ''ase'' then ''ASE Atoms'' else ''Pymatgen Structure'')
                      @ '' not available for model '' @ model_name m @ ''.''))"
  by (cases m) (simp_all add: get_structure_for_model_def)

lemma get_structure_for_model_format:
  "get_structure_for_model sd m = Inr obj \<Longrightarrow>
     (required_input_format m = ''ase'' \<and> (\<exists>a. obj = AtomsObj a \<and> lookup_ase_atoms sd = Some a)) \<or>
     (required_input_format m = ''pymatgen'' \<and>
        (\<exists>s. obj = StructureObj s \<and> lookup_pymatgen_structure sd = Some s))"
  by (auto simp: get_structure_for_model_def Let_def split: if_splits option.splits)

lemma ase_predict_body_keys:
  "ase_predict_body ext calc a t = Inr d \<Longrightarrow> is_success_entry (PyDict d)"
  by (auto simp: ase_predict_body_def split: if_splits sum.splits)

lemma CHGNET_predict_keys:
  "CHGNET_predict ext m s t = Inr d \<Longrightarrow> is_success_entry (PyDict d)"
  by (auto simp: CHGNET_predict_def Let_def dest!: prediction_failed_Inr split: if_splits sum.splits)

lemma model_predict_keys:
  assumes "model_predict ext m obj t = Inr d"
  shows "is_success_entry (PyDict d)"
proof (cases m)
  case (EqV2Model c)
  with assms obtain a where "ase_predict_body ext c a t = Inr d"
    by (cases obj) (simp_all add: EqV2_predict_def)
  then show ?thesis by (rule ase_predict_body_keys)
next
  case (CHGNETModel c)
  with assms obtain s where "CHGNET_predict ext c s t = Inr d"
    by (cases obj) simp_all
  then show ?thesis by (rule CHGNET_predict_keys)
next
  case (MACEModel c)
  with assms obtain a where "prediction_failed ''MACE'' (ase_predict_body ext c a t) = Inr d"
    by (cases obj) (simp_all add: MACE_predict_def)
  then have "ase_predict_body ext c a t = Inr d" by (rule prediction_failed_Inr)
  then show ?thesis by (rule ase_predict_body_keys)
next
  case (MatterSimModel c)
  with assms obtain a where "prediction_failed ''MatterSim'' (ase_predict_body ext c a t) = Inr d"
    by (cases obj) (simp_all add: MatterSim_predict_def)
  then have "ase_predict_body ext c a t = Inr d" by (rule prediction_failed_Inr)
  then show ?thesis by (rule ase_predict_body_keys)
qed

lemma error_entry_is_entry: "is_entry (error_entry e)"
  by (simp add: is_entry_def error_entry_def)

lemma success_is_entry: "model_predict ext m obj t = Inr d \<Longrightarrow> is_entry (PyDict d)"
  unfolding is_entry_def by (blast dest: model_predict_keys)

lemma predict_step_entry:
  "\<exists>s' v. predict_step ext t m (s, acc) = (s', AList.update (model_name m) v acc) \<and> is_entry v"
  by (auto simp: predict_step_def error_entry_is_entry success_is_entry split: sum.splits)

lemma batch_model_step_entry:
  "\<exists>v. batch_model_step ext t sd m acc = AList.update (model_name m) v acc \<and> is_entry v"
  by (auto simp: batch_model_step_def error_entry_is_entry success_is_entry split: sum.splits)

lemma update_set: "set (AList.update k v al) \<subseteq> insert (k, v) (set al)"
  by (induction al) auto

lemma predict_fold:
  assumes "distinct (map fst acc)" and "\<forall>v \<in> snd ` set acc. is_entry v"
  shows "distinct (map fst (snd (fold (predict_step ext t) ms (s, acc)))) \<and>
         fst ` set (snd (fold (predict_step ext t) ms (s, acc))) = model_name ` set ms \<union> fst ` set acc \<and>
         (\<forall>v \<in> snd ` set (snd (fold (predict_step ext t) ms (s, acc))). is_entry v)"
  using assms
proof (induction ms arbitrary: s acc)
  case Nil
  then show ?case by simp
next
  case (Cons m ms)
  obtain s' v where step: "predict_step ext t m (s, acc) = (s', AList.update (model_name m) v acc)"
    and v: "is_entry v"
    using predict_step_entry [of ext t m s acc] by blast
  let ?acc = "AList.update (model_name m) v acc"
  have d: "distinct (map fst ?acc)" using Cons.prems(1) by (rule distinct_update)
  have e: "\<forall>w \<in> snd ` set ?acc. is_entry w"
    using update_values [of "model_name m" v acc] Cons.prems(2) v by blast
  have k: "fst ` set ?acc = {model_name m} \<union> fst ` set acc" by (rule dom_update)
  show ?case using Cons.IH [OF d e, of s'] step k by auto
qed

lemma batch_fold:
  assumes "distinct (map fst acc)"
  shows "distinct (map fst (fold (batch_model_step ext t sd) ms acc)) \<and>
         fst ` set (fold (batch_model_step ext t sd) ms acc) = model_name ` set ms \<union> fst ` set acc \<and>
         (\<forall>kv \<in> set (fold (batch_model_step ext t sd) ms acc). kv \<in> set acc \<or> is_entry (snd kv))"
  using assms
proof (induction ms arbitrary: acc)
  case Nil
  then show ?case by simp
next
  case (Cons m ms)
  obtain v where step: "batch_model_step ext t sd m acc = AList.update (model_name m) v acc"
    and v: "is_entry v"
    using batch_model_step_entry [of ext t sd m acc] by blast
  let ?acc = "AList.update (model_name m) v acc"
  have d: "distinct (map fst ?acc)" using Cons.prems by (rule distinct_update)
  have k: "fst ` set ?acc = {model_name m} \<union> fst ` set acc" by (rule dom_update)
  have sub: "\<forall>kv \<in> set ?acc. kv \<in> set acc \<or> is_entry (snd kv)"
    using update_set [of "model_name m" v acc] v by auto
  have ih: "distinct (map fst (fold (batch_model_step ext t sd) ms ?acc)) \<and>
         fst ` set (fold (batch_model_step ext t sd) ms ?acc) = model_name ` set ms \<union> fst ` set ?acc \<and>
         (\<forall>kv \<in> set (fold (batch_model_step ext t sd) ms ?acc). kv \<in> set ?acc \<or> is_entry (snd kv))"
    by (rule Cons.IH [OF d])
  have "\<forall>kv \<in> set (fold (batch_model_step ext t sd) ms ?acc). kv \<in> set acc \<or> is_entry (snd kv)"
    using ih sub by blast
  then show ?case using ih step k by auto
qed

lemma unified_record_keys:
  assumes "unified_record ext ms t idx sd = Inr r"
  shows "distinct (map fst r) \<and>
         fst ` set r = {''index'', ''structure''} \<union> model_name ` set ms \<and>
         (\<forall>kv \<in> set r. fst kv \<in> model_name ` set ms \<longrightarrow> is_entry (snd kv))"
proof -
  obtain a where r: "r = fold (batch_model_step ext t sd) ms
      [(''index'', PyInt (int idx)), (''structure'', PyStr (get_chemical_formula ext a))]"
    using assms by (auto simp: unified_record_def split: field.splits)
  let ?init = "[(''index'', PyInt (int idx)), (''structure'', PyStr (get_chemical_formula ext a))]"
  have d: "distinct (map fst ?init)" by simp
  note f = batch_fold [OF d, of ext t sd ms]
  have "is_entry (snd kv)" if mem: "kv \<in> set r" and key: "fst kv \<in> model_name ` set ms" for kv
  proof -
    have "kv \<in> set ?init \<or> is_entry (snd kv)" using f mem r by blast
    moreover have "kv \<notin> set ?init"
    proof
      assume "kv \<in> set ?init"
      then have reserved: "fst kv = ''index'' \<or> fst kv = ''structure''" by auto
      obtain m where "fst kv = model_name m" using key by auto
      then show False using reserved model_name_not_reserved [of m] by simp
    qed
    ultimately show ?thesis by blast
  qed
  then show ?thesis using f r by auto
qed

lemma predict_batch_loop_records:
  "predict_batch_loop ext ms t idx ss acc = Inr rs \<Longrightarrow>
   \<forall>r \<in> set rs. r \<in> set acc \<or> (\<exists>i sd. unified_record ext ms t i sd = Inr r)"
proof (induction ss arbitrary: idx acc)
  case Nil
  then show ?case by simp
next
  case (Cons sd ss)
  from Cons.prems obtain r where r: "unified_record ext ms t idx sd = Inr r"
    and rest: "predict_batch_loop ext ms t (Suc idx) ss (acc @ [r]) = Inr rs"
    by (auto split: sum.splits)
  from Cons.IH [OF rest] r show ?case by auto
qed

text \<open>Batches in which every record holds its \<open>Atoms\<close> object run to the end.\<close>

lemma predict_batch_loop_complete:
  assumes "\<forall>sd \<in> set ss. \<exists>a. ase_atoms sd = Present a"
  shows "\<exists>rs. predict_batch_loop ext ms t idx ss acc = Inr (acc @ rs) \<and> length rs = length ss \<and>
           (\<forall>j < length ss. unified_record ext ms t (idx + j) (ss ! j) = Inr (rs ! j))"
  using assms
proof (induction ss arbitrary: idx acc)
  case Nil
  then show ?case by simp
next
  case (Cons sd ss)
  obtain a where a: "ase_atoms sd = Present a" using Cons.prems by auto
  then obtain r where r: "unified_record ext ms t idx sd = Inr r"
    by (simp add: unified_record_def)
  have "\<forall>sd \<in> set ss. \<exists>a. ase_atoms sd = Present a" using Cons.prems by simp
  from Cons.IH [OF this, of "Suc idx" "acc @ [r]"]
  obtain rs where loop: "predict_batch_loop ext ms t (Suc idx) ss (acc @ [r]) = Inr ((acc @ [r]) @ rs)"
    and len: "length rs = length ss"
    and each: "\<forall>j < length ss. unified_record ext ms t (Suc idx + j) (ss ! j) = Inr (rs ! j)"
    by blast
  have "\<forall>j < length (sd # ss). unified_record ext ms t (idx + j) ((sd # ss) ! j) = Inr ((r # rs) ! j)"
  proof (intro allI impI)
    fix j assume "j < length (sd # ss)"
    then show "unified_record ext ms t (idx + j) ((sd # ss) ! j) = Inr ((r # rs) ! j)"
      using r each by (cases j) auto
  qed
  then show ?case using r loop len by (intro exI [of _ "r # rs"]) simp
qed

lemma unified_record_index:
  "unified_record ext ms t idx sd = Inr r \<Longrightarrow> map_of r ''index'' = Some (PyInt (int idx))"
proof -
  assume "unified_record ext ms t idx sd = Inr r"
  then obtain a where r: "r = fold (batch_model_step ext t sd) ms
      [(''index'', PyInt (int idx)), (''structure'', PyStr (get_chemical_formula ext a))]"
    by (auto simp: unified_record_def split: field.splits)
  have "map_of (fold (batch_model_step ext t sd) ms acc) ''index'' = map_of acc ''index''" for acc
  proof (induction ms arbitrary: acc)
    case Nil
    then show ?case by simp
  next
    case (Cons m ms)
    obtain v where "batch_model_step ext t sd m acc = AList.update (model_name m) v acc"
      using batch_model_step_entry [of ext t sd m acc] by blast
    then show ?case using Cons.IH [of "AList.update (model_name m) v acc"] model_name_not_reserved(1) [of m]
      by (simp add: update_conv')
  qed
  then show ?thesis using r by simp
qed

lemma predict_batch_complete:
  assumes "\<forall>sd \<in> set ss. \<exists>a. ase_atoms sd = Present a"
  shows "\<exists>rs. predict_batch ext ms ss t = Inr rs \<and> length rs = length ss \<and>
           (\<forall>j < length ss. unified_record ext ms t j (ss ! j) = Inr (rs ! j) \<and>
                             map_of (rs ! j) ''index'' = Some (PyInt (int j)))"
  using predict_batch_loop_complete [OF assms, of ext ms t 0 "[]"]
  by (auto simp: predict_batch_def dest: unified_record_index)

lemma predict_batch_aborts:
  assumes "sd \<in> set ss" and "\<forall>a. ase_atoms sd \<noteq> Present a"
  shows "\<exists>e. predict_batch_loop ext ms t idx ss acc = Inl e"
  using assms
proof (induction ss arbitrary: idx acc)
  case Nil
  then show ?case by simp
next
  case (Cons x ss)
  show ?case
  proof (cases "unified_record ext ms t idx x")
    case (Inl e)
    then show ?thesis by simp
  next
    case (Inr r)
    then have "\<exists>a. ase_atoms x = Present a"
      by (auto simp: unified_record_def split: field.splits)
    then have "sd \<in> set ss" using Cons.prems by auto
    from Cons.IH [OF this Cons.prems(2)] Inr show ?thesis by simp
  qed
qed

text \<open>
  Claim C4. The mapping returned by \<open>predict\<close> has exactly one entry per configured model
  name and nothing else, and every entry is an error entry or a prediction result, also
  when every model fails. Every record that \<open>predict_batch\<close> returns has pairwise distinct
  keys, namely \<open>"index"\<close>, \<open>"structure"\<close> and the configured model names, and under every
  model name an error entry or a prediction result.
\<close>

theorem every_model_has_one_entry:
  "distinct (map fst (predict ext models sd t)) \<and>
   fst ` set (predict ext models sd t) = model_name ` set models \<and>
   (\<forall>v \<in> snd ` set (predict ext models sd t). is_entry v) \<and>
   (predict_batch ext models ss t = Inr rs \<longrightarrow>
      (\<forall>r \<in> set rs.
         distinct (map fst r) \<and>
         fst ` set r = {''index'', ''structure''} \<union> model_name ` set models \<and>
         (\<forall>kv \<in> set r. fst kv \<in> model_name ` set models \<longrightarrow> is_entry (snd kv))))"
proof -
  have pf: "distinct (map fst (predict ext models sd t)) \<and>
      fst ` set (predict ext models sd t) = model_name ` set models \<union> fst ` set ([] :: pydict) \<and>
      (\<forall>v \<in> snd ` set (predict ext models sd t). is_entry v)"
    unfolding predict_def by (rule predict_fold) simp_all
  then have single: "distinct (map fst (predict ext models sd t)) \<and>
      fst ` set (predict ext models sd t) = model_name ` set models \<and>
      (\<forall>v \<in> snd ` set (predict ext models sd t). is_entry v)"
    by simp
  have batch: "\<forall>r \<in> set rs.
         distinct (map fst r) \<and>
         fst ` set r = {''index'', ''structure''} \<union> model_name ` set models \<and>
         (\<forall>kv \<in> set r. fst kv \<in> model_name ` set models \<longrightarrow> is_entry (snd kv))"
    if run: "predict_batch ext models ss t = Inr rs"
  proof
    fix r
    assume mem: "r \<in> set rs"
    have "predict_batch_loop ext models t 0 ss [] = Inr rs"
      using run by (simp only: predict_batch_def)
    from predict_batch_loop_records [OF this] mem
    have "r \<in> set [] \<or> (\<exists>i s. unified_record ext models t i s = Inr r)" by (rule bspec)
    then obtain i s where "unified_record ext models t i s = Inr r" by auto
    then show "distinct (map fst r) \<and>
         fst ` set r = {''index'', ''structure''} \<union> model_name ` set models \<and>
         (\<forall>kv \<in> set r. fst kv \<in> model_name ` set models \<longrightarrow> is_entry (snd kv))"
      by (rule unified_record_keys)
  qed
  from single batch show ?thesis by (intro conjI impI) (elim conjE, assumption)+
qed

theorem every_model_has_one_entry_witness:
  "predict_batch shifting_scheme mace_and_chgnet [h2_record] (Some ''energy'')
     = Inr [[(''index'', PyInt 0), (''structure'', PyStr ''H2''),
             (''MACE'', PyDict [(''energy'', PyFloat 4)]),
             (''CHGNET'', PyDict [(''energy'', NpFloat32 3)])]] \<and>
   map fst (predict raising_scheme [MACEModel failing_calculator, CHGNETModel failing_chgnet]
              h2_record None) = [''MACE'', ''CHGNET''] \<and>
   fst ` set [(''index'', PyInt 0), (''structure'', PyStr ''H2''),
              (''MACE'', PyDict [(''energy'', PyFloat 4)]),
              (''CHGNET'', PyDict [(''energy'', NpFloat32 3)])]
     = {''index'', ''structure''} \<union> model_name ` set mace_and_chgnet"
proof -
  let ?r = "[(''index'', PyInt 0), (''structure'', PyStr ''H2''),
             (''MACE'', PyDict [(''energy'', PyFloat 4)]),
             (''CHGNET'', PyDict [(''energy'', NpFloat32 3)])]"
  have run: "predict_batch shifting_scheme mace_and_chgnet [h2_record] (Some ''energy'') = Inr [?r]"
    by (simp add: predict_batch_def unified_record_def batch_model_step_def h2_record_def
        mace_and_chgnet_def get_structure_for_model_def MACE_predict_def CHGNET_predict_def
        prediction_failed_def ase_predict_body_def steady_calculator_def steady_chgnet_def
        shifting_scheme_def plain_Structure_new_def apply_mp2020_correction_def
        correction_attempt_def h2_atoms_def h2_structure_def)
  have keys: "map fst (predict raising_scheme [MACEModel failing_calculator, CHGNETModel failing_chgnet]
              h2_record None) = [''MACE'', ''CHGNET'']"
    by (simp add: predict_def predict_step_def h2_record_def get_structure_for_model_def
        MACE_predict_def prediction_failed_def ase_predict_body_def requested_def
        failing_calculator_def error_entry_def)
  have "fst ` set ?r = {''index'', ''structure''} \<union> model_name ` set mace_and_chgnet"
    using every_model_has_one_entry
      [of shifting_scheme mace_and_chgnet h2_record "Some ''energy''" "[h2_record]" "[?r]"] run
    by simp
  then show ?thesis using run keys by simp
qed

text \<open>
  Claim C6 at a record holding both representations and the ensemble MACE, CHGNET.
  \<open>predict\<close> overwrites its variable \<open>structure\<close> with the object selected for MACE, so the
  CHGNET entry is a missing-representation error, although the record holds the
  pymatgen structure. \<open>predict_batch\<close>, which keeps the record in a variable of its own,
  gives both models their representation.
\<close>

theorem predict_passes_selected_object_on:
  "predict shifting_scheme mace_and_chgnet h2_record (Some ''energy'')
     = [(''MACE'', PyDict [(''energy'', PyFloat 4)]),
        (''CHGNET'', PyDict [(''error'', PyStr ''Pymatgen Structure not available for model CHGNET.'')])] \<and>
   predict_batch shifting_scheme mace_and_chgnet [h2_record] (Some ''energy'')
     = Inr [[(''index'', PyInt 0), (''structure'', PyStr ''H2''),
             (''MACE'', PyDict [(''energy'', PyFloat 4)]),
             (''CHGNET'', PyDict [(''energy'', NpFloat32 3)])]]"
  by (simp add: predict_def predict_step_def predict_batch_def unified_record_def
      batch_model_step_def h2_record_def error_entry_def
      mace_and_chgnet_def get_structure_for_model_def MACE_predict_def CHGNET_predict_def
      prediction_failed_def ase_predict_body_def steady_calculator_def steady_chgnet_def
      shifting_scheme_def plain_Structure_new_def apply_mp2020_correction_def
      correction_attempt_def h2_atoms_def h2_structure_def)

text \<open>
  Claim C2 at a batch of three records, the second of which holds \<open>None\<close> under
  \<open>"ase_atoms"\<close>: the label of the record is computed outside the \<open>try\<close>, so the
  \<open>AttributeError\<close> leaves \<open>predict_batch\<close> and no record at all is returned. For batches
  whose records all hold their \<open>Atoms\<close> object, \<open>predict_batch_complete\<close> gives one record
  per structure, in input order, whatever the models do.
\<close>

theorem batch_aborts_on_record_without_atoms:
  "predict_batch shifting_scheme mace_and_chgnet [h2_record, atoms_none_record, h2_record]
     (Some ''energy'')
     = Inl (AttributeError
              ([CHR 0x27] @ ''NoneType'' @ [CHR 0x27] @ '' object has no attribute ''
               @ [CHR 0x27] @ ''get_chemical_formula'' @ [CHR 0x27]))"
  by (simp add: predict_batch_def unified_record_def h2_record_def atoms_none_record_def)

text \<open>
  Claim C3 at a record without the \<open>"ase_atoms"\<close> key. Submitted in a batch, the
  \<open>KeyError\<close> of the label computation leaves \<open>predict_batch\<close>. Submitted alone, \<open>predict\<close>
  records the error under MACE and leaves the CHGNET entry as it is.
\<close>

theorem missing_atoms_error_leaves_batch:
  "predict_batch shifting_scheme mace_and_chgnet [lattice_only_record] (Some ''energy'')
     = Inl (KeyError ''ase_atoms'') \<and>
   predict shifting_scheme mace_and_chgnet lattice_only_record (Some ''energy'')
     = [(''MACE'', PyDict [(''error'', PyStr ''ASE Atoms not available for model MACE.'')]),
        (''CHGNET'', PyDict [(''energy'', NpFloat32 3)])]"
  by (simp add: predict_def predict_step_def predict_batch_def unified_record_def
      lattice_only_record_def error_entry_def
      mace_and_chgnet_def get_structure_for_model_def CHGNET_predict_def
      prediction_failed_def steady_chgnet_def shifting_scheme_def)

section \<open>The serializer: structure and JSON safety\<close>

lemma json_plain_list_all: "(\<forall>x \<in> set xs. json_plain x) \<Longrightarrow> json_plain_list xs"
  by (induction xs) simp_all

lemma tolist_plain: "json_plain (tolist a)"
  by (induction a) (simp_all add: json_plain_list_all)

lemma tolist_shape: "shape_of (tolist a) = Leaf"
  by (cases a) simp_all

lemma serialize_dict_as_map:
  "distinct (map fst d) \<Longrightarrow> serialize_items d [] = map (\<lambda>(k, v). (k, serialize_value v)) d"
  using serialize_items_as_map [of d "[]"] by simp

lemma serialize_keys: "map fst (map (\<lambda>(k, v). (k, serialize_value v)) d) = map fst d"
  by (induction d) auto

lemma serialize_preserves:
  "pydict_ok v \<Longrightarrow>
     shape_of (serialize_value v) = shape_of v \<and>
     (passes_plain v \<longrightarrow> json_plain (serialize_value v))"
  "items_ok d \<Longrightarrow>
     shape_of_items (map (\<lambda>(k, v). (k, serialize_value v)) d) = shape_of_items d \<and>
     (passes_plain_items d \<longrightarrow> json_plain_items (map (\<lambda>(k, v). (k, serialize_value v)) d))"
proof (induction v and d rule: pydict_ok_items_ok.induct)
  case (1 d)
  then have "distinct (map fst d)" and "items_ok d" by simp_all
  then show ?case using 1 by (simp add: serialize_dict_as_map)
qed (simp_all add: tolist_plain tolist_shape)

text \<open>
  Claim C8, as the code has it. On records that are Python dicts (distinct keys), the
  serializer returns as many records as it is given; each is the input record with
  \<open>serialize_value\<close> applied under every key (ndarrays become nested lists of plain
  numbers, the four numpy scalar types plain floats and integers, nested dicts are
  serialized in turn, every other value is handed on as it is), so the keys and the
  nesting shape are those of the input. The output is JSON-plain provided every value
  that is handed on is JSON-plain.
\<close>

theorem serialize_results_structure:
  assumes "\<forall>r \<in> set records. pydict_ok (PyDict r)"
  shows "length (serialize_results records) = length records \<and>
         serialize_results records = map (map (\<lambda>(k, v). (k, serialize_value v))) records \<and>
         map (map fst) (serialize_results records) = map (map fst) records \<and>
         map shape_of_items (serialize_results records) = map shape_of_items records \<and>
         ((\<forall>r \<in> set records. passes_plain_items r) \<longrightarrow>
            (\<forall>r \<in> set (serialize_results records). json_plain_items r))"
proof -
  have each: "serialize_items r [] = map (\<lambda>(k, v). (k, serialize_value v)) r"
    if "r \<in> set records" for r
    using assms that by (simp add: serialize_dict_as_map)
  then have eq: "serialize_results records = map (map (\<lambda>(k, v). (k, serialize_value v))) records"
    by (simp add: serialize_results_def)
  have keys: "map (map fst) (serialize_results records) = map (map fst) records"
    by (auto simp: eq split: prod.splits)
  have shape: "map shape_of_items (serialize_results records) = map shape_of_items records"
    using assms by (simp add: eq serialize_preserves(2))
  have plain: "\<forall>r \<in> set (serialize_results records). json_plain_items r"
    if "\<forall>r \<in> set records. passes_plain_items r"
    using assms that by (auto simp: eq serialize_preserves(2))
  show ?thesis using eq keys shape plain by simp
qed

theorem serialize_results_structure_witness:
  "pydict_ok (PyDict numpy_record) \<and> passes_plain_items numpy_record \<and>
   serialize_results [numpy_record]
     = [[(''index'', PyInt 0),
         (''MACE'', PyDict [(''energy'', PyFloat 4), (''forces'', tolist zero_forces)])]] \<and>
   json_plain_items (hd (serialize_results [numpy_record]))"
proof -
  have ok: "\<forall>r \<in> set [numpy_record]. pydict_ok (PyDict r)"
    by (simp add: numpy_record_def)
  have pp: "passes_plain_items numpy_record"
    by (simp add: numpy_record_def)
  have out: "serialize_results [numpy_record]
     = [[(''index'', PyInt 0),
         (''MACE'', PyDict [(''energy'', PyFloat 4), (''forces'', tolist zero_forces)])]]"
    by (simp add: serialize_results_def numpy_record_def)
  have pp': "\<forall>r \<in> set [numpy_record]. passes_plain_items r"
    using pp by simp
  have "\<forall>r \<in> set (serialize_results [numpy_record]). json_plain_items r"
    using serialize_results_structure [OF ok] pp' by blast
  then have plain: "json_plain_items (hd (serialize_results [numpy_record]))"
    by (simp add: serialize_results_def)
  have "pydict_ok (PyDict numpy_record)" using ok by simp
  then show ?thesis using pp out plain by (intro conjI)
qed

text \<open>
  Claim C8 as stated fails on a record whose forces are a list of ndarray rows: the list
  is no ndarray and no dict, so it is handed on, and the output still holds an ndarray,
  which no JSON encoder can write.
\<close>

theorem serialized_list_keeps_ndarray:
  "serialize_results [rows_record]
     = [[(''index'', PyInt 0),
         (''MACE'', PyDict [(''energy'', PyFloat 4),
                           (''forces'', PyList [NdArray (NdDim [NdFloat 0, NdFloat 0, NdFloat 0])])])]] \<and>
   \<not> json_plain_items (hd (serialize_results [rows_record]))"
  by (simp add: serialize_results_def rows_record_def)

end
